theory Spec2Isabelle
  imports
    Complex_Main
    "HOL-Library.Char_ord"
    "HOL-Library.List_Lexorder"
    "HOL-Library.Product_Lexorder"
    "HOL-Library.AList"
begin

section \<open>Weather enrichment and daily aggregation\<close>

text \<open>
  The repository holds two variants of the Bronze-to-Silver transformation:
  \<^item> \<^verbatim>\<open>src/scripts/transformation/data_transformation.py\<close>, class
    \<^verbatim>\<open>SimpleWeatherTransformation\<close>; its functions keep their names here;
  \<^item> \<^verbatim>\<open>src/scripts/transformation/.ipynb_checkpoints/data_transformation-checkpoint.py\<close>,
    class \<^verbatim>\<open>WeatherDataTransformation\<close>; its functions carry the prefix \<open>ckpt_\<close>.

  A pandas float cell is a \<open>real option\<close>: \<open>None\<close> is NaN (SQL NULL, or a value
  \<^verbatim>\<open>pd.to_numeric(errors='coerce')\<close> could not read), \<open>Some x\<close> a finite double, given
  by the real number it is. Arithmetic on cells is that of IEEE 754 binary64: every
  operation returns the exact result rounded to the nearest double, ties to even, and a
  decimal literal such as \<^verbatim>\<open>0.3\<close> is the double nearest to it. Integer literals and
  the bounds of the classifiers other than the severity thresholds are doubles
  themselves. Categorical cells are strings, as in the code.
\<close>

subsection \<open>Cells\<close>

type_synonym cell = "real option"

definition isna :: "'a option \<Rightarrow> bool" where
  \<comment> \<open>\<^verbatim>\<open>pd.isna\<close> on a scalar.\<close>
  "isna v = (v = None)"

fun nan_lt :: "cell \<Rightarrow> real \<Rightarrow> bool" where
  \<comment> \<open>\<^verbatim>\<open>v < c\<close>; every comparison with NaN is False.\<close>
  "nan_lt None c = False"
| "nan_lt (Some x) c = (x < c)"

fun nan_le :: "cell \<Rightarrow> real \<Rightarrow> bool" where
  "nan_le None c = False"
| "nan_le (Some x) c = (x \<le> c)"

fun nan_gt :: "cell \<Rightarrow> real \<Rightarrow> bool" where
  "nan_gt None c = False"
| "nan_gt (Some x) c = (x > c)"

fun nan_ge :: "cell \<Rightarrow> real \<Rightarrow> bool" where
  "nan_ge None c = False"
| "nan_ge (Some x) c = (x \<ge> c)"

fun nan_op2 :: "(real \<Rightarrow> real \<Rightarrow> real) \<Rightarrow> cell \<Rightarrow> cell \<Rightarrow> cell" where
  \<comment> \<open>Column arithmetic: a NaN operand gives NaN.\<close>
  "nan_op2 f (Some x) (Some y) = Some (f x y)"
| "nan_op2 f _ _ = None"

definition fillna0 :: "cell \<Rightarrow> cell" where
  \<comment> \<open>\<^verbatim>\<open>.fillna(0)\<close>\<close>
  "fillna0 v = (case v of None \<Rightarrow> Some 0 | Some x \<Rightarrow> Some x)"

subsection \<open>Double-precision arithmetic\<close>

text \<open>
  \<open>to_double x\<close> is the number with a significand of 53 bits nearest to \<open>x\<close>, ties going
  to the even significand; \<open>expo2 x\<close> is the exponent \<open>e\<close> with \<open>2^e \<le> x < 2^(e+1)\<close>.
  The exponent is not bounded, so infinities, overflow and subnormal numbers are left
  out. For finite cells neither score reaches them in a way that shows: the severity
  score divides before it multiplies and stays finite, and a comfort penalty that
  overflowed would still end in the final clamp at 0.
\<close>

function expo2 :: "real \<Rightarrow> int" where
  "expo2 x =
     (if x \<le> 0 then 0
      else if 2 \<le> x then expo2 (x / 2) + 1
      else if x < 1 then expo2 (x * 2) - 1
      else 0)"
  by pat_completeness auto
termination
proof (relation "measure (\<lambda>x. 2 * nat \<lceil>1 / x\<rceil> + nat \<lceil>x\<rceil>)")
  have half: "\<lceil>y / 2\<rceil> < \<lceil>y\<rceil>" if "1 < y" for y :: real
  proof -
    have "2 \<le> \<lceil>y\<rceil>"
      using that by (simp add: le_ceiling_iff)
    then have "(2::real) \<le> of_int \<lceil>y\<rceil>"
      by linarith
    moreover have "y \<le> of_int \<lceil>y\<rceil>"
      by (rule le_of_int_ceiling)
    ultimately have "y / 2 \<le> of_int \<lceil>y\<rceil> - 1"
      by linarith
    then have "y / 2 \<le> of_int (\<lceil>y\<rceil> - 1)"
      by simp
    then have "\<lceil>y / 2\<rceil> \<le> \<lceil>y\<rceil> - 1"
      by (simp only: ceiling_le_iff)
    then show ?thesis
      by linarith
  qed
  have small: "\<lceil>y\<rceil> = 1" if "0 < y" and "y \<le> 1" for y :: real
    using that by (simp add: ceiling_eq_iff)
  show "wf (measure (\<lambda>x. 2 * nat \<lceil>1 / x\<rceil> + nat \<lceil>x\<rceil>))"
    by simp
  show "(x / 2, x) \<in> measure (\<lambda>x. 2 * nat \<lceil>1 / x\<rceil> + nat \<lceil>x\<rceil>)"
    if "\<not> x \<le> 0" and "2 \<le> x" for x :: real
  proof -
    have a: "\<lceil>x / 2\<rceil> < \<lceil>x\<rceil>"
      using that by (intro half) simp
    have b: "\<lceil>1 / (x / 2)\<rceil> = 1" "\<lceil>1 / x\<rceil> = 1"
      using that by (simp_all add: small)
    have c: "0 < \<lceil>x / 2\<rceil>"
      using that by (simp add: less_ceiling_iff)
    show ?thesis
      using a b c by simp
  qed
  show "(x * 2, x) \<in> measure (\<lambda>x. 2 * nat \<lceil>1 / x\<rceil> + nat \<lceil>x\<rceil>)"
    if "\<not> x \<le> 0" and "\<not> 2 \<le> x" and "x < 1" for x :: real
  proof -
    have a: "\<lceil>x\<rceil> = 1"
      using that by (simp add: small)
    have b: "\<lceil>x * 2\<rceil> \<le> 2"
      using that by (simp add: ceiling_le_iff)
    have "\<lceil>(1 / x) / 2\<rceil> < \<lceil>1 / x\<rceil>"
      using that by (intro half) simp
    then have c: "\<lceil>1 / (x * 2)\<rceil> < \<lceil>1 / x\<rceil>"
      by simp
    have d: "0 < \<lceil>1 / (x * 2)\<rceil>"
      using that by (simp add: less_ceiling_iff)
    show ?thesis
      unfolding in_measure a using b c d by arith
  qed
qed

declare expo2.simps [simp del]

definition pow2 :: "int \<Rightarrow> real" where
  "pow2 k = (if 0 \<le> k then 2 ^ nat k else 1 / 2 ^ nat (- k))"

definition round_half_even :: "real \<Rightarrow> int" where
  "round_half_even y =
     (let f = \<lfloor>y\<rfloor>; d = y - of_int f
      in if d < 1 / 2 then f else if 1 / 2 < d then f + 1 else if even f then f else f + 1)"

definition to_double :: "real \<Rightarrow> real" where
  "to_double x =
     (if x = 0 then 0
      else let s = 52 - expo2 \<bar>x\<bar>
           in sgn x * of_int (round_half_even (\<bar>x\<bar> * pow2 s)) * pow2 (- s))"

definition fsub :: "real \<Rightarrow> real \<Rightarrow> real" where "fsub x y = to_double (x - y)"
definition fadd :: "real \<Rightarrow> real \<Rightarrow> real" where "fadd x y = to_double (x + y)"
definition fmul :: "real \<Rightarrow> real \<Rightarrow> real" where "fmul x y = to_double (x * y)"
definition fdiv :: "real \<Rightarrow> real \<Rightarrow> real" where "fdiv x y = to_double (x / y)"

subsection \<open>Geographic classifiers\<close>

definition get_hemisphere :: "cell \<Rightarrow> string" where
  "get_hemisphere latitude =
     (if isna latitude then ''UNKNOWN''
      else if nan_gt latitude 0 then ''NORTHERN''
      else if nan_lt latitude 0 then ''SOUTHERN''
      else ''EQUATORIAL'')"

definition get_climate_zone :: "cell \<Rightarrow> string" where
  "get_climate_zone latitude =
     (if isna latitude then ''UNKNOWN''
      else let abs_lat = map_option abs latitude in
        if nan_le abs_lat 23.5 then ''TROPICAL''
        else if nan_le abs_lat 35 then ''SUBTROPICAL''
        else if nan_le abs_lat 55 then ''TEMPERATE''
        else ''POLAR'')"

text \<open>The checkpoint variant has no \<^verbatim>\<open>pd.isna\<close> test in either classifier.\<close>

definition ckpt_get_hemisphere :: "cell \<Rightarrow> string" where
  "ckpt_get_hemisphere latitude =
     (if nan_gt latitude 0 then ''NORTHERN''
      else if nan_lt latitude 0 then ''SOUTHERN''
      else ''EQUATORIAL'')"

definition ckpt_get_climate_zone :: "cell \<Rightarrow> string" where
  "ckpt_get_climate_zone latitude =
     (let abs_lat = map_option abs latitude in
        if nan_le abs_lat 23.5 then ''TROPICAL''
        else if nan_le abs_lat 35 then ''SUBTROPICAL''
        else if nan_le abs_lat 55 then ''TEMPERATE''
        else ''POLAR'')"

subsection \<open>Comfort index\<close>

text \<open>\<^verbatim>\<open>calculate_comfort_index\<close> is the same text in both variants.\<close>

definition calculate_comfort_index :: "cell \<Rightarrow> cell \<Rightarrow> cell \<Rightarrow> cell" where
  "calculate_comfort_index temp humidity wind_speed =
     (case (temp, humidity) of
        (Some t, Some h) \<Rightarrow>
          (let temp_score = max 0 (fsub 100 (fmul \<bar>fsub t 21\<bar> 5));
               humidity_penalty = fmul \<bar>fsub h 50\<bar> (to_double (3 / 10));
               wind_penalty =
                 (case wind_speed of Some w \<Rightarrow> fmul \<bar>fsub w 5\<bar> 2 | None \<Rightarrow> 0);
               comfort = fsub (fsub temp_score humidity_penalty) wind_penalty
           in Some (max 0 (min 100 comfort)))
      | _ \<Rightarrow> None)"

definition clamp :: "real \<Rightarrow> real \<Rightarrow> real \<Rightarrow> real" where
  "clamp x lo hi = max lo (min hi x)"

definition comfort_spec :: "real \<Rightarrow> real \<Rightarrow> cell \<Rightarrow> real" where
  \<comment> \<open>The specification's formula as it is written, over the reals: one outer clamp,
      wind term 0 when wind speed is absent.\<close>
  "comfort_spec t h w =
     clamp ((100 - 5 * \<bar>t - 21\<bar>) - 0.3 * \<bar>h - 50\<bar>
            - (case w of Some ws \<Rightarrow> 2 * \<bar>ws - 5\<bar> | None \<Rightarrow> 0)) 0 100"

definition comfort_double :: "real \<Rightarrow> real \<Rightarrow> real \<Rightarrow> real" where
  \<comment> \<open>The specification's formula with one outer clamp, each operation in double
      precision, for a wind speed that is present.\<close>
  "comfort_double t h w =
     clamp (fsub (fsub (fsub 100 (fmul 5 \<bar>fsub t 21\<bar>))
                    (fmul (to_double (3 / 10)) \<bar>fsub h 50\<bar>))
              (fmul 2 \<bar>fsub w 5\<bar>)) 0 100"

subsection \<open>Categories\<close>

definition categorize_temperature :: "cell \<Rightarrow> string" where
  "categorize_temperature temp =
     (if isna temp then ''UNKNOWN''
      else if nan_lt temp 0 then ''FREEZING''
      else if nan_lt temp 10 then ''COLD''
      else if nan_lt temp 20 then ''COOL''
      else if nan_lt temp 30 then ''WARM''
      else ''HOT'')"

definition ckpt_categorize_temperature :: "cell \<Rightarrow> string" where
  "ckpt_categorize_temperature temp =
     (if nan_lt temp 0 then ''FREEZING''
      else if nan_lt temp 10 then ''COLD''
      else if nan_lt temp 20 then ''COOL''
      else if nan_lt temp 30 then ''WARM''
      else ''HOT'')"

definition categorize_humidity :: "cell \<Rightarrow> string" where
  "categorize_humidity humidity =
     (if isna humidity then ''UNKNOWN''
      else if nan_lt humidity 30 then ''DRY''
      else if nan_lt humidity 60 then ''COMFORTABLE''
      else if nan_lt humidity 80 then ''HUMID''
      else ''VERY_HUMID'')"

definition ckpt_categorize_humidity :: "cell \<Rightarrow> string" where
  "ckpt_categorize_humidity humidity =
     (if nan_lt humidity 30 then ''DRY''
      else if nan_lt humidity 60 then ''COMFORTABLE''
      else if nan_lt humidity 80 then ''HUMID''
      else ''VERY_HUMID'')"

definition categorize_comfort :: "cell \<Rightarrow> string" where
  \<comment> \<open>The same text in both variants.\<close>
  "categorize_comfort comfort =
     (if isna comfort then ''UNKNOWN''
      else if nan_ge comfort 80 then ''VERY_COMFORTABLE''
      else if nan_ge comfort 60 then ''COMFORTABLE''
      else if nan_ge comfort 40 then ''MODERATE''
      else if nan_ge comfort 20 then ''UNCOMFORTABLE''
      else ''VERY_UNCOMFORTABLE'')"

definition categorize_severity :: "cell \<Rightarrow> string" where
  \<comment> \<open>Checkpoint variant only; no \<^verbatim>\<open>pd.isna\<close> test.\<close>
  "categorize_severity score =
     (if nan_lt score (to_double (2 / 10)) then ''MILD''
      else if nan_lt score (to_double (4 / 10)) then ''MODERATE''
      else if nan_lt score (to_double (6 / 10)) then ''SEVERE''
      else ''EXTREME'')"

subsection \<open>Season\<close>

definition py_in :: "int option \<Rightarrow> int list \<Rightarrow> bool" where
  \<comment> \<open>\<^verbatim>\<open>month in [..]\<close>: NaN equals no element of the list.\<close>
  "py_in m xs = (case m of None \<Rightarrow> False | Some v \<Rightarrow> v \<in> set xs)"

definition get_season :: "int option \<Rightarrow> string" where
  \<comment> \<open>The same text in both variants.\<close>
  "get_season month =
     (if py_in month [12, 1, 2] then ''WINTER''
      else if py_in month [3, 4, 5] then ''SPRING''
      else if py_in month [6, 7, 8] then ''SUMMER''
      else ''AUTUMN'')"

subsection \<open>Observations\<close>

record timestamp =
  ts_year :: int
  ts_month :: int
  ts_day :: int
  ts_hour :: int
  ts_minute :: int
  ts_second :: int

type_synonym date = "int \<times> int \<times> int"

definition day_name :: "timestamp \<Rightarrow> string" where
  \<comment> \<open>\<^verbatim>\<open>.dt.day_name()\<close> of pandas, for a calendar date of the Gregorian calendar
      (months 1 to 12): the weekday by Sakamoto's rule.\<close>
  "day_name ts =
     (let y = (if ts_month ts < 3 then ts_year ts - 1 else ts_year ts);
          t = [0, 3, 2, 5, 0, 3, 5, 1, 4, 6, 2, 4] ! nat (ts_month ts - 1);
          w = (y + y div 4 - y div 100 + y div 400 + t + ts_day ts) mod 7
      in [''Sunday'', ''Monday'', ''Tuesday'', ''Wednesday'', ''Thursday'', ''Friday'',
          ''Saturday''] ! nat w)"

text \<open>
  One row of \<^verbatim>\<open>BRONZE.CURRENT_WEATHER_RAW\<close> as \<^verbatim>\<open>pd.read_sql\<close> delivers it. Every
  column is nullable. \<open>timestamp = None\<close> is NaT: an absent timestamp, or one that
  \<^verbatim>\<open>pd.to_datetime(errors='coerce')\<close> could not read.
\<close>

record raw_observation =
  city_id :: "string option"
  city_name :: "string option"
  country_code :: "string option"
  latitude :: cell
  longitude :: cell
  timestamp :: "timestamp option"
  weather_main :: "string option"
  weather_description :: "string option"
  temperature :: cell
  feels_like :: cell
  temp_min :: cell
  temp_max :: cell
  pressure :: cell
  humidity :: cell
  wind_speed :: cell
  wind_deg :: cell
  clouds :: cell
  ingestion_date :: "date option"

record flagged_observation = raw_observation +
  data_quality_flag :: string

record enriched_observation = flagged_observation +
  date :: "date option"
  hour :: "int option"
  day_of_week :: "string option"
  month :: "int option"
  season :: string
  hemisphere :: string
  climate_zone :: string
  temperature_category :: string
  humidity_category :: string
  comfort_index :: cell
  comfort_level :: string

record ckpt_enriched_observation = enriched_observation +
  weather_severity_score :: cell
  severity_level :: string

subsection \<open>Quality gate\<close>

definition fill_missing :: "raw_observation \<Rightarrow> raw_observation" where
  \<comment> \<open>\<^verbatim>\<open>fillna(0)\<close> on WIND_SPEED, WIND_DEG and CLOUDS (CLOUD_COVERAGE in the checkpoint).\<close>
  "fill_missing r =
     r\<lparr>wind_speed := fillna0 (wind_speed r), wind_deg := fillna0 (wind_deg r),
       clouds := fillna0 (clouds r)\<rparr>"

definition quality_flag :: "cell \<Rightarrow> string" where
  \<comment> \<open>'VALID', overwritten where \<^verbatim>\<open>(TEMPERATURE < -50) | (TEMPERATURE > 60)\<close>.\<close>
  "quality_flag temp =
     (if nan_lt temp (- 50) \<or> nan_gt temp 60 then ''EXTREME_TEMPERATURE'' else ''VALID'')"

definition add_quality_flag :: "raw_observation \<Rightarrow> flagged_observation" where
  "add_quality_flag r =
     raw_observation.extend r (flagged_observation.fields (quality_flag (temperature r)))"

definition df_silver :: "raw_observation list \<Rightarrow> flagged_observation list" where
  \<comment> \<open>\<^verbatim>\<open>df_silver\<close> (\<^verbatim>\<open>df_clean\<close> in the checkpoint) once the flag column is set.\<close>
  "df_silver df_bronze = map (\<lambda>r. add_quality_flag (fill_missing r)) df_bronze"

definition is_valid :: "flagged_observation \<Rightarrow> bool" where
  "is_valid r = (data_quality_flag r = ''VALID'')"

definition df_valid :: "raw_observation list \<Rightarrow> flagged_observation list" where
  "df_valid df_bronze = filter is_valid (df_silver df_bronze)"

definition count_valid :: "raw_observation list \<Rightarrow> nat" where
  "count_valid df_bronze = length (df_valid df_bronze)"

definition count_rejected :: "raw_observation list \<Rightarrow> nat" where
  "count_rejected df_bronze = length df_bronze - count_valid df_bronze"

subsection \<open>Feature derivation\<close>

definition date_of :: "timestamp \<Rightarrow> date" where
  "date_of ts = (ts_year ts, ts_month ts, ts_day ts)"

definition enrich :: "flagged_observation \<Rightarrow> enriched_observation" where
  \<comment> \<open>The derived columns of \<^verbatim>\<open>SimpleWeatherTransformation.transform_data\<close>, row by row.\<close>
  "enrich r =
     (let MONTH = map_option ts_month (timestamp r);
          COMFORT_INDEX = calculate_comfort_index (temperature r) (humidity r) (wind_speed r)
      in flagged_observation.extend r
           (enriched_observation.fields
              (map_option date_of (timestamp r))
              (map_option ts_hour (timestamp r))
              (map_option day_name (timestamp r))
              MONTH
              (get_season MONTH)
              (get_hemisphere (latitude r))
              (get_climate_zone (latitude r))
              (categorize_temperature (temperature r))
              (categorize_humidity (humidity r))
              COMFORT_INDEX
              (categorize_comfort COMFORT_INDEX)))"

definition silver_frame :: "raw_observation list \<Rightarrow> enriched_observation list" where
  \<comment> \<open>The frame handed to \<^verbatim>\<open>write_pandas\<close>.\<close>
  "silver_frame df_bronze = map enrich (df_valid df_bronze)"

subsection \<open>Run results\<close>

datatype rvalue = Str string | Num nat

type_synonym result = "(string \<times> rvalue) list"

definition status :: "result \<Rightarrow> rvalue option" where
  "status res = map_of res ''status''"

text \<open>
  The store is an external collaborator. \<open>fetched\<close> is what connecting, creating the
  tables and \<^verbatim>\<open>pd.read_sql\<close> gave: the text of an exception, or the bronze batch.
  \<open>write_pandas\<close> answers a frame with the text of an exception, or with the pair
  \<^verbatim>\<open>(success, nrows)\<close>. The function returns the result dictionary and the frame it
  handed to the writer, if it got that far.
\<close>

definition transform_data ::
  "string + raw_observation list \<Rightarrow> (enriched_observation list \<Rightarrow> string + bool \<times> nat)
     \<Rightarrow> result \<times> enriched_observation list option" where
  "transform_data fetched write_pandas =
     (case fetched of
        Inl e \<Rightarrow> ([(''status'', Str ''FAILED''), (''error'', Str e)], None)
      | Inr df_bronze \<Rightarrow>
          if df_bronze = [] then
            ([(''status'', Str ''WARNING''), (''message'', Str ''No bronze data'')], None)
          else if df_valid df_bronze = [] then
            ([(''status'', Str ''WARNING''), (''message'', Str ''No valid data'')], None)
          else
            (case write_pandas (silver_frame df_bronze) of
               Inl e \<Rightarrow>
                 ([(''status'', Str ''FAILED''), (''error'', Str e)],
                  Some (silver_frame df_bronze))
             | Inr (success, nrows) \<Rightarrow>
                 if success then
                   ([(''status'', Str ''SUCCESS''),
                     (''bronze_rows'', Num (length df_bronze)),
                     (''silver_rows'', Num nrows)],
                    Some (silver_frame df_bronze))
                 else
                   ([(''status'', Str ''FAILED''), (''error'', Str ''Silver write failed'')],
                    Some (silver_frame df_bronze))))"

definition write_all :: "'a list \<Rightarrow> string + bool \<times> nat" where
  \<comment> \<open>A store that accepts every row it is given.\<close>
  "write_all df = Inr (True, length df)"

subsection \<open>The checkpoint variant: enrichment with a severity score\<close>

definition severity_score :: "cell \<Rightarrow> cell \<Rightarrow> cell \<Rightarrow> cell \<Rightarrow> cell" where
  \<comment> \<open>The column expression for WEATHER_SEVERITY_SCORE, on one row: temperature,
      humidity, wind speed, cloud coverage.\<close>
  "severity_score temp hum wind cloud =
     nan_op2 fadd
       (nan_op2 fadd
          (nan_op2 fadd
             (map_option (\<lambda>t. fmul (fdiv \<bar>fsub t 21\<bar> 40) (to_double (4 / 10))) temp)
             (map_option (\<lambda>w. fmul (fdiv \<bar>fsub w 5\<bar> 20) (to_double (3 / 10))) wind))
          (map_option (\<lambda>h. fmul (fdiv \<bar>fsub h 50\<bar> 100) (to_double (2 / 10))) hum))
       (map_option (\<lambda>c. fmul (fdiv (fsub 100 c) 100) (to_double (1 / 10))) cloud)"


definition ckpt_enrich :: "flagged_observation \<Rightarrow> ckpt_enriched_observation" where
  \<comment> \<open>The derived columns of \<^verbatim>\<open>WeatherDataTransformation.transform_data\<close>, row by row.\<close>
  "ckpt_enrich r =
     (let MONTH = map_option ts_month (timestamp r);
          COMFORT_INDEX = calculate_comfort_index (temperature r) (humidity r) (wind_speed r);
          WEATHER_SEVERITY_SCORE =
            severity_score (temperature r) (humidity r) (wind_speed r) (clouds r)
      in enriched_observation.extend
           (flagged_observation.extend r
              (enriched_observation.fields
                 (map_option date_of (timestamp r))
                 (map_option ts_hour (timestamp r))
                 (map_option day_name (timestamp r))
                 MONTH
                 (get_season MONTH)
                 (ckpt_get_hemisphere (latitude r))
                 (ckpt_get_climate_zone (latitude r))
                 (ckpt_categorize_temperature (temperature r))
                 (ckpt_categorize_humidity (humidity r))
                 COMFORT_INDEX
                 (categorize_comfort COMFORT_INDEX)))
           (ckpt_enriched_observation.fields
              WEATHER_SEVERITY_SCORE
              (categorize_severity WEATHER_SEVERITY_SCORE)))"

definition ckpt_silver_frame :: "raw_observation list \<Rightarrow> ckpt_enriched_observation list" where
  \<comment> \<open>\<^verbatim>\<open>df_valid\<close> with every derived column: the frame handed to the writer and then to
      \<^verbatim>\<open>create_daily_aggregations\<close>.\<close>
  "ckpt_silver_frame df_bronze = map ckpt_enrich (df_valid df_bronze)"

subsection \<open>The checkpoint variant: daily aggregation\<close>

datatype py_error =
    ValueError_length_mismatch nat nat
  | KeyError string
  | Store_error string

datatype datum = Number cell | Text "string option" | Count nat | Day "date option"

datatype aggfun =
  Agg_count | Agg_mean | Agg_min | Agg_max | Agg_std | Agg_nunique | Agg_mode_or_unknown

definition dict_literal :: "('k \<times> 'v) list \<Rightarrow> ('k \<times> 'v) list" where
  \<comment> \<open>A Python dict display, evaluated left to right: a repeated key keeps its first
      position and takes the last value.\<close>
  "dict_literal kvs = foldl (\<lambda>d (k, v). AList.update k v d) [] kvs"

definition agg_spec :: "(string \<times> aggfun list) list" where
  \<comment> \<open>The dictionary given to \<^verbatim>\<open>.agg\<close>. The key 'WEATHER_MAIN' is written twice, first
      with the mode lambda and then with 'nunique'; pandas reads a scalar entry as a list
      of one function.\<close>
  "agg_spec = dict_literal
     [(''TEMPERATURE'', [Agg_count, Agg_mean, Agg_min, Agg_max, Agg_std]),
      (''HUMIDITY'', [Agg_mean, Agg_min, Agg_max]),
      (''WIND_SPEED'', [Agg_mean, Agg_max]),
      (''PRESSURE'', [Agg_mean]),
      (''COMFORT_INDEX'', [Agg_mean]),
      (''WEATHER_MAIN'', [Agg_mode_or_unknown]),
      (''WEATHER_MAIN'', [Agg_nunique])]"

definition agg_labels :: "(string \<times> aggfun list) list \<Rightarrow> (string \<times> aggfun) list" where
  \<comment> \<open>The aggregated columns: one per column and function, in order.\<close>
  "agg_labels spec = concat (map (\<lambda>(c, fs). map (Pair c) fs) spec)"

definition frame_columns :: "(string \<times> (ckpt_enriched_observation \<Rightarrow> datum)) list" where
  \<comment> \<open>The columns of \<^verbatim>\<open>df_silver\<close>, by name.\<close>
  "frame_columns =
     [(''CITY_ID'', \<lambda>r. Text (city_id r)),
      (''CITY_NAME'', \<lambda>r. Text (city_name r)),
      (''COUNTRY_CODE'', \<lambda>r. Text (country_code r)),
      (''LATITUDE'', \<lambda>r. Number (latitude r)),
      (''LONGITUDE'', \<lambda>r. Number (longitude r)),
      (''WEATHER_MAIN'', \<lambda>r. Text (weather_main r)),
      (''WEATHER_DESCRIPTION'', \<lambda>r. Text (weather_description r)),
      (''TEMPERATURE'', \<lambda>r. Number (temperature r)),
      (''FEELS_LIKE'', \<lambda>r. Number (feels_like r)),
      (''TEMP_MIN'', \<lambda>r. Number (temp_min r)),
      (''TEMP_MAX'', \<lambda>r. Number (temp_max r)),
      (''PRESSURE'', \<lambda>r. Number (pressure r)),
      (''HUMIDITY'', \<lambda>r. Number (humidity r)),
      (''WIND_SPEED'', \<lambda>r. Number (wind_speed r)),
      (''WIND_DEG'', \<lambda>r. Number (wind_deg r)),
      (''CLOUD_COVERAGE'', \<lambda>r. Number (clouds r)),
      (''INGESTION_DATE'', \<lambda>r. Day (ingestion_date r)),
      (''DATA_QUALITY_FLAG'', \<lambda>r. Text (Some (data_quality_flag r))),
      (''DATE'', \<lambda>r. Day (date r)),
      (''HOUR'', \<lambda>r. Number (map_option real_of_int (hour r))),
      (''DAY_OF_WEEK'', \<lambda>r. Text (day_of_week r)),
      (''MONTH'', \<lambda>r. Number (map_option real_of_int (month r))),
      (''SEASON'', \<lambda>r. Text (Some (season r))),
      (''HEMISPHERE'', \<lambda>r. Text (Some (hemisphere r))),
      (''CLIMATE_ZONE'', \<lambda>r. Text (Some (climate_zone r))),
      (''TEMPERATURE_CATEGORY'', \<lambda>r. Text (Some (temperature_category r))),
      (''HUMIDITY_CATEGORY'', \<lambda>r. Text (Some (humidity_category r))),
      (''COMFORT_INDEX'', \<lambda>r. Number (comfort_index r)),
      (''COMFORT_LEVEL'', \<lambda>r. Text (Some (comfort_level r))),
      (''WEATHER_SEVERITY_SCORE'', \<lambda>r. Number (weather_severity_score r)),
      (''SEVERITY_LEVEL'', \<lambda>r. Text (Some (severity_level r)))]"

fun resolve ::
  "(string \<times> aggfun) list \<Rightarrow> py_error + ((ckpt_enriched_observation \<Rightarrow> datum) \<times> aggfun) list"
  where
  \<comment> \<open>Selecting the columns to aggregate; a name the frame lacks is a KeyError.\<close>
  "resolve [] = Inr []"
| "resolve ((c, f) # ls) =
     (case map_of frame_columns c of
        None \<Rightarrow> Inl (KeyError c)
      | Some get \<Rightarrow> (case resolve ls of Inl e \<Rightarrow> Inl e | Inr gs \<Rightarrow> Inr ((get, f) # gs)))"

text \<open>
  The aggregation functions of pandas, each on the kind of column the code gives it:
  all of them skip null cells; the numeric ones read \<open>Number\<close> cells, the mode reads
  \<open>Text\<close> cells. \<^verbatim>\<open>Series.mode()\<close> returns the most frequent values in sorted order, so
  \<^verbatim>\<open>x.mode()[0]\<close> is the least of them. \<open>mean\<close> and \<open>std\<close> give the exact mean and
  sample deviation of the cells, without the rounding of pandas' summation.
\<close>

fun notnull :: "datum \<Rightarrow> bool" where
  "notnull (Number v) = (v \<noteq> None)"
| "notnull (Text v) = (v \<noteq> None)"
| "notnull (Count n) = True"
| "notnull (Day v) = (v \<noteq> None)"

fun numbers :: "datum list \<Rightarrow> real list" where
  "numbers [] = []"
| "numbers (Number (Some x) # vs) = x # numbers vs"
| "numbers (_ # vs) = numbers vs"

fun texts :: "datum list \<Rightarrow> string list" where
  "texts [] = []"
| "texts (Text (Some s) # vs) = s # texts vs"
| "texts (_ # vs) = texts vs"

definition mean :: "real list \<Rightarrow> cell" where
  "mean xs = (if xs = [] then None else Some (sum_list xs / real (length xs)))"

definition std :: "real list \<Rightarrow> cell" where
  \<comment> \<open>The sample standard deviation (\<^verbatim>\<open>ddof=1\<close>): NaN below two values.\<close>
  "std xs =
     (if length xs < 2 then None
      else let m = sum_list xs / real (length xs)
           in Some (sqrt (sum_list (map (\<lambda>x. (x - m)\<^sup>2) xs) / real (length xs - 1))))"

definition mode :: "string list \<Rightarrow> string list" where
  "mode ss =
     sort (remdups (filter (\<lambda>s. list_all (\<lambda>t. count_list ss t \<le> count_list ss s) ss) ss))"

fun aggregate :: "aggfun \<Rightarrow> datum list \<Rightarrow> datum" where
  "aggregate Agg_count vs = Count (length (filter notnull vs))"
| "aggregate Agg_mean vs = Number (mean (numbers vs))"
| "aggregate Agg_min vs =
     Number (case numbers vs of [] \<Rightarrow> None | x # xs \<Rightarrow> Some (fold min xs x))"
| "aggregate Agg_max vs =
     Number (case numbers vs of [] \<Rightarrow> None | x # xs \<Rightarrow> Some (fold max xs x))"
| "aggregate Agg_std vs = Number (std (numbers vs))"
| "aggregate Agg_nunique vs = Count (length (remdups (filter notnull vs)))"
| "aggregate Agg_mode_or_unknown vs =
     Text (Some (case mode (texts vs) of [] \<Rightarrow> ''UNKNOWN'' | m # _ \<Rightarrow> m))"

type_synonym group_key = "string \<times> string \<times> string \<times> date \<times> string \<times> string"

definition group_key :: "ckpt_enriched_observation \<Rightarrow> group_key option" where
  \<comment> \<open>CITY_ID, CITY_NAME, COUNTRY_CODE, DATE, CLIMATE_ZONE, HEMISPHERE;
      \<^verbatim>\<open>groupby\<close> leaves out a row with a null key (\<^verbatim>\<open>dropna=True\<close>).\<close>
  "group_key r =
     (case (city_id r, city_name r, country_code r, date r) of
        (Some i, Some n, Some c, Some d) \<Rightarrow> Some (i, n, c, d, climate_zone r, hemisphere r)
      | _ \<Rightarrow> None)"

definition groupby ::
  "ckpt_enriched_observation list \<Rightarrow> (group_key \<times> ckpt_enriched_observation list) list" where
  \<comment> \<open>The groups in sorted key order, each with its rows in frame order.\<close>
  "groupby df =
     map (\<lambda>k. (k, filter (\<lambda>r. group_key r = Some k) df))
       (sort (remdups (List.map_filter group_key df)))"

definition key_values :: "group_key \<Rightarrow> datum list" where
  "key_values k =
     (case k of (i, n, c, d, z, h) \<Rightarrow>
        [Text (Some i), Text (Some n), Text (Some c), Day (Some d), Text (Some z),
         Text (Some h)])"

type_synonym agg_frame = "nat \<times> datum list list"

definition groupby_agg :: "ckpt_enriched_observation list \<Rightarrow> py_error + agg_frame" where
  \<comment> \<open>\<^verbatim>\<open>df_silver.groupby([..]).agg({..}).reset_index()\<close>: the number of columns, and the
      rows, one per group.\<close>
  "groupby_agg df =
     (case resolve (agg_labels agg_spec) of
        Inl e \<Rightarrow> Inl e
      | Inr gs \<Rightarrow>
          Inr (6 + length gs,
               map (\<lambda>(k, g). key_values k @ map (\<lambda>(get, f). aggregate f (map get g)) gs)
                 (groupby df)))"

definition daily_columns :: "string list" where
  "daily_columns =
     [''CITY_ID'', ''CITY_NAME'', ''COUNTRY_CODE'', ''DATE'', ''CLIMATE_ZONE'', ''HEMISPHERE'',
      ''HOURLY_READINGS'', ''AVG_TEMPERATURE'', ''MIN_TEMPERATURE'', ''MAX_TEMPERATURE'',
      ''TEMPERATURE_VARIABILITY'', ''AVG_HUMIDITY'', ''MIN_HUMIDITY'', ''MAX_HUMIDITY'',
      ''AVG_WIND_SPEED'', ''MAX_WIND_SPEED'', ''AVG_PRESSURE'', ''AVG_COMFORT_INDEX'',
      ''DOMINANT_WEATHER'', ''WEATHER_CHANGES_COUNT'']"

type_synonym daily_summary = "(string \<times> datum) list"

definition set_columns :: "string list \<Rightarrow> agg_frame \<Rightarrow> py_error + daily_summary list" where
  \<comment> \<open>\<^verbatim>\<open>daily_agg.columns = [..]\<close>: pandas raises ValueError unless there are as many
      names as columns.\<close>
  "set_columns names frame =
     (case frame of (ncols, rows) \<Rightarrow>
        if length names = ncols then Inr (map (zip names) rows)
        else Inl (ValueError_length_mismatch ncols (length names)))"

definition number_at :: "daily_summary \<Rightarrow> string \<Rightarrow> cell" where
  "number_at row c = (case map_of row c of Some (Number v) \<Rightarrow> v | _ \<Rightarrow> None)"

definition categorize_stability :: "cell \<Rightarrow> string" where
  "categorize_stability variability =
     (if isna variability then ''UNKNOWN''
      else if nan_lt variability 2 then ''STABLE''
      else if nan_lt variability 5 then ''MODERATE''
      else ''VARIABLE'')"

definition categorize_daily_comfort :: "cell \<Rightarrow> string" where
  "categorize_daily_comfort comfort =
     (if isna comfort then ''UNKNOWN''
      else if nan_ge comfort 70 then ''COMFORTABLE''
      else if nan_ge comfort 50 then ''MODERATE''
      else ''UNCOMFORTABLE'')"

definition additional_metrics :: "daily_summary \<Rightarrow> daily_summary" where
  \<comment> \<open>DAILY_TEMP_RANGE, TEMPERATURE_STABILITY and COMFORT_CATEGORY, on one row.\<close>
  "additional_metrics row =
     row @
     [(''DAILY_TEMP_RANGE'',
         Number (nan_op2 fsub (number_at row ''MAX_TEMPERATURE'')
                   (number_at row ''MIN_TEMPERATURE''))),
      (''TEMPERATURE_STABILITY'',
         Text (Some (categorize_stability (number_at row ''TEMPERATURE_VARIABILITY'')))),
      (''COMFORT_CATEGORY'',
         Text (Some (categorize_daily_comfort (number_at row ''AVG_COMFORT_INDEX''))))]"

definition daily_agg :: "ckpt_enriched_observation list \<Rightarrow> py_error + daily_summary list" where
  \<comment> \<open>The body of \<^verbatim>\<open>create_daily_aggregations\<close> up to the write.\<close>
  "daily_agg df =
     (case groupby_agg df of
        Inl e \<Rightarrow> Inl e
      | Inr frame \<Rightarrow>
          (case set_columns daily_columns frame of
             Inl e \<Rightarrow> Inl e
           | Inr rows \<Rightarrow> Inr (map additional_metrics rows)))"

datatype daily_log = Created nat | Write_failed | Aggregation_failed py_error

text \<open>
  \<^verbatim>\<open>create_daily_aggregations\<close> has no return statement and catches every exception of
  its body. The model gives its return value (Python's None, as \<open>None\<close>), the line it
  logs, and the rows it handed to the writer, if it got that far.
\<close>

definition create_daily_aggregations ::
  "(daily_summary list \<Rightarrow> string + bool \<times> nat) \<Rightarrow> ckpt_enriched_observation list
     \<Rightarrow> result option \<times> daily_log \<times> daily_summary list option" where
  "create_daily_aggregations pd_writer df =
     (case daily_agg df of
        Inl e \<Rightarrow> (None, Aggregation_failed e, None)
      | Inr rows \<Rightarrow>
          (case pd_writer rows of
             Inl e \<Rightarrow> (None, Aggregation_failed (Store_error e), Some rows)
           | Inr (success, nrows) \<Rightarrow>
               (None, if success then Created (length rows) else Write_failed, Some rows)))"

definition daily_summaries ::
  "result option \<times> daily_log \<times> daily_summary list option \<Rightarrow> daily_summary list" where
  \<comment> \<open>The DailySummary rows a run of the aggregator produced.\<close>
  "daily_summaries run = (case snd (snd run) of None \<Rightarrow> [] | Some rows \<Rightarrow> rows)"

definition hourly_readings :: "daily_summary \<Rightarrow> nat" where
  "hourly_readings row = (case map_of row ''HOURLY_READINGS'' of Some (Count n) \<Rightarrow> n | _ \<Rightarrow> 0)"

definition ckpt_transform_data ::
  "string + raw_observation list
     \<Rightarrow> (ckpt_enriched_observation list \<Rightarrow> string + bool \<times> nat)
     \<Rightarrow> (daily_summary list \<Rightarrow> string + bool \<times> nat)
     \<Rightarrow> result \<times> ckpt_enriched_observation list option
          \<times> (result option \<times> daily_log \<times> daily_summary list option) option" where
  \<comment> \<open>The result dictionary, the frame handed to the silver writer, and the run of the
      aggregator, where the function got that far.\<close>
  "ckpt_transform_data fetched pd_writer pd_writer_daily =
     (case fetched of
        Inl e \<Rightarrow> ([(''status'', Str ''FAILED''), (''error'', Str e)], None, None)
      | Inr df_bronze \<Rightarrow>
          if df_bronze = [] then
            ([(''status'', Str ''WARNING''), (''message'', Str ''No data to transform'')],
             None, None)
          else
            (case pd_writer (ckpt_silver_frame df_bronze) of
               Inl e \<Rightarrow>
                 ([(''status'', Str ''FAILED''), (''error'', Str e)],
                  Some (ckpt_silver_frame df_bronze), None)
             | Inr (success, nrows) \<Rightarrow>
                 if success then
                   ([(''status'', Str ''SUCCESS''),
                     (''records_transformed'', Num (length (ckpt_silver_frame df_bronze))),
                     (''silver_rows_written'', Num nrows)],
                    Some (ckpt_silver_frame df_bronze),
                    Some (create_daily_aggregations pd_writer_daily
                            (ckpt_silver_frame df_bronze)))
                 else
                   ([(''status'', Str ''FAILED''), (''error'', Str ''Silver write failed'')],
                    Some (ckpt_silver_frame df_bronze), None)))"

subsection \<open>Sample observations\<close>

definition noon :: timestamp where
  "noon = \<lparr>ts_year = 2024, ts_month = 1, ts_day = 1, ts_hour = 12, ts_minute = 0,
           ts_second = 0\<rparr>"

definition obs_london :: raw_observation where
  \<comment> \<open>The specification's scenario: London, 21 degrees, humidity 50, wind 5, clouds 50.\<close>
  "obs_london =
     \<lparr>city_id = Some ''2643743'', city_name = Some ''London'', country_code = Some ''GB'',
      latitude = Some 51.5, longitude = Some (- 0.125), timestamp = Some noon,
      weather_main = Some ''Clouds'', weather_description = Some ''scattered clouds'',
      temperature = Some 21, feels_like = Some 21, temp_min = Some 20, temp_max = Some 22,
      pressure = Some 1013, humidity = Some 50, wind_speed = Some 5, wind_deg = Some 180,
      clouds = Some 50, ingestion_date = Some (2024, 1, 1)\<rparr>"

definition obs_extreme :: raw_observation where
  \<comment> \<open>The specification's scenario \<^verbatim>\<open>temp=-60\<close>.\<close>
  "obs_extreme = obs_london\<lparr>temperature := Some (- 60)\<rparr>"


definition obs_no_wind :: raw_observation where
  "obs_no_wind = obs_london\<lparr>wind_speed := None\<rparr>"

definition obs_no_timestamp :: raw_observation where
  "obs_no_timestamp = obs_london\<lparr>timestamp := None\<rparr>"

definition batch3 :: "raw_observation list" where
  \<comment> \<open>One usable record and two rejected ones.\<close>
  "batch3 = [obs_london, obs_extreme, obs_extreme]"

definition reports_count :: "result \<Rightarrow> nat \<Rightarrow> bool" where
  \<comment> \<open>Some entry of the result dictionary has the count \<open>n\<close> as its value.\<close>
  "reports_count res n = (Num n \<in> set (map snd res))"

definition reports_warning :: "result option \<Rightarrow> bool" where
  \<comment> \<open>The value returned is a result dictionary whose status is WARNING.\<close>
  "reports_warning ret =
     (case ret of None \<Rightarrow> False | Some res \<Rightarrow> status res = Some (Str ''WARNING''))"

section \<open>Properties\<close>

lemmas double_simps = to_double_def expo2.simps pow2_def round_half_even_def Let_def
  fsub_def fadd_def fmul_def fdiv_def

subsection \<open>Double-precision arithmetic: signs\<close>

lemma pow2_pos: "0 < pow2 k"
  by (simp add: pow2_def)

lemma round_half_even_nonneg: "0 \<le> y \<Longrightarrow> 0 \<le> round_half_even y"
  by (auto simp add: round_half_even_def Let_def)

lemma to_double_nonneg: "0 \<le> x \<Longrightarrow> 0 \<le> to_double x"
  using pow2_pos [of "- (52 - expo2 \<bar>x\<bar>)"] pow2_pos [of "52 - expo2 \<bar>x\<bar>"]
  by (simp add: to_double_def Let_def round_half_even_nonneg)

lemma to_double_minus: "to_double (- x) = - to_double x"
  by (simp add: to_double_def Let_def)

lemma to_double_nonpos: "x \<le> 0 \<Longrightarrow> to_double x \<le> 0"
  using to_double_nonneg [of "- x"] by (simp add: to_double_minus)

lemma fmul_nonneg: "0 \<le> x \<Longrightarrow> 0 \<le> y \<Longrightarrow> 0 \<le> fmul x y"
  by (simp add: fmul_def to_double_nonneg)




lemma fsub_nonpos: "x \<le> 0 \<Longrightarrow> 0 \<le> y \<Longrightarrow> fsub x y \<le> 0"
  by (simp add: fsub_def to_double_nonpos)

lemma fmul_commute: "fmul x y = fmul y x"
  by (simp add: fmul_def mult.commute)

subsection \<open>Rows of the frames\<close>

lemmas row_simps = enrich_def ckpt_enrich_def Let_def raw_observation.defs
  flagged_observation.defs enriched_observation.defs ckpt_enriched_observation.defs


lemma enrich_keeps:
  "timestamp (enrich r) = timestamp r"
  "data_quality_flag (enrich r) = data_quality_flag r"
  "temperature (enrich r) = temperature r"
  by (simp_all add: row_simps)

lemma ckpt_enrich_keeps:
  "data_quality_flag (ckpt_enrich r) = data_quality_flag r"
  "temperature (ckpt_enrich r) = temperature r"
  "humidity (ckpt_enrich r) = humidity r"
  "wind_speed (ckpt_enrich r) = wind_speed r"
  "clouds (ckpt_enrich r) = clouds r"
  by (simp_all add: row_simps)

lemma add_quality_flag_sel:
  "data_quality_flag (add_quality_flag r) = quality_flag (temperature r)"
  "temperature (add_quality_flag r) = temperature r"
  "timestamp (add_quality_flag r) = timestamp r"
  by (simp_all add: add_quality_flag_def row_simps)

lemma fill_missing_keeps:
  "temperature (fill_missing r) = temperature r"
  "timestamp (fill_missing r) = timestamp r"
  by (simp_all add: fill_missing_def)

lemma truncate_enrich: "flagged_observation.truncate (enrich r) = r"
  by (simp add: row_simps)

lemma truncate_ckpt_enrich: "flagged_observation.truncate (ckpt_enrich r) = r"
  by (simp add: row_simps)


subsection \<open>Quality gate\<close>

lemma quality_flag_extreme_iff:
  "(quality_flag T = ''EXTREME_TEMPERATURE'') = (\<exists>t. T = Some t \<and> (t < - 50 \<or> 60 < t))"
  by (cases T) (simp_all add: quality_flag_def)

lemma quality_flag_valid_iff:
  "(quality_flag T = ''VALID'') = (\<not> (\<exists>t. T = Some t \<and> (t < - 50 \<or> 60 < t)))"
  by (cases T) (simp_all add: quality_flag_def)

lemma df_silver_flags:
  "map data_quality_flag (df_silver df) = map (\<lambda>r. quality_flag (temperature r)) df"
  by (simp add: df_silver_def add_quality_flag_sel fill_missing_keeps)

lemma silver_frame_valid:
  "e \<in> set (silver_frame df) \<Longrightarrow>
     data_quality_flag e = ''VALID'' \<and> quality_flag (temperature e) = ''VALID''"
  by (auto simp add: silver_frame_def df_valid_def df_silver_def is_valid_def enrich_keeps
      add_quality_flag_sel fill_missing_keeps)

lemma ckpt_silver_frame_valid:
  "e \<in> set (ckpt_silver_frame df) \<Longrightarrow>
     data_quality_flag e = ''VALID'' \<and> quality_flag (temperature e) = ''VALID''"
  by (auto simp add: ckpt_silver_frame_def df_valid_def df_silver_def is_valid_def
      ckpt_enrich_keeps add_quality_flag_sel fill_missing_keeps)

lemma groupby_rows: "(k, g) \<in> set (groupby df) \<Longrightarrow> set g \<subseteq> set df"
  by (auto simp add: groupby_def)

lemma silver_frame_truncate:
  "map flagged_observation.truncate (silver_frame df) = filter is_valid (df_silver df)"
  by (simp add: silver_frame_def df_valid_def truncate_enrich comp_def)

lemma ckpt_silver_frame_truncate:
  "map flagged_observation.truncate (ckpt_silver_frame df) = filter is_valid (df_silver df)"
  by (simp add: ckpt_silver_frame_def df_valid_def truncate_ckpt_enrich comp_def)

lemma transform_data_writes:
  "snd (transform_data (Inr df) w) = None \<or> snd (transform_data (Inr df) w) = Some (silver_frame df)"
  by (simp add: transform_data_def split: sum.splits prod.splits)

text \<open>
  C2. The quality flag is EXTREME_TEMPERATURE exactly when the temperature is present
  and below -50 or above 60, and VALID otherwise, so for an absent temperature too.
  \<^verbatim>\<open>df_silver\<close> carries that flag for every record of the batch. In both variants
  the frame the enrichment writes is the enrichment of exactly the VALID rows of
  \<^verbatim>\<open>df_silver\<close>, every row of it is VALID with a temperature that is not extreme, and
  every row of every group of the daily aggregation is such a row.
\<close>

theorem quality_gate_excludes_extremes:
  "(quality_flag T = ''EXTREME_TEMPERATURE'') = (\<exists>t. T = Some t \<and> (t < - 50 \<or> 60 < t))
   \<and> (quality_flag T = ''VALID'') = (\<not> (\<exists>t. T = Some t \<and> (t < - 50 \<or> 60 < t)))
   \<and> quality_flag None = ''VALID''
   \<and> map data_quality_flag (df_silver df) = map (\<lambda>r. quality_flag (temperature r)) df
   \<and> map flagged_observation.truncate (silver_frame df) = filter is_valid (df_silver df)
   \<and> map flagged_observation.truncate (ckpt_silver_frame df) = filter is_valid (df_silver df)
   \<and> (\<forall>e \<in> set (silver_frame df).
         data_quality_flag e = ''VALID'' \<and> quality_flag (temperature e) = ''VALID'')
   \<and> (\<forall>e \<in> set (ckpt_silver_frame df).
         data_quality_flag e = ''VALID'' \<and> quality_flag (temperature e) = ''VALID'')
   \<and> (\<forall>(k, g) \<in> set (groupby (ckpt_silver_frame df)). \<forall>e \<in> set g.
         data_quality_flag e = ''VALID'' \<and> quality_flag (temperature e) = ''VALID'')"
proof (intro conjI)
  show "(quality_flag T = ''EXTREME_TEMPERATURE'') = (\<exists>t. T = Some t \<and> (t < - 50 \<or> 60 < t))"
    by (rule quality_flag_extreme_iff)
  show "(quality_flag T = ''VALID'') = (\<not> (\<exists>t. T = Some t \<and> (t < - 50 \<or> 60 < t)))"
    by (rule quality_flag_valid_iff)
  show "quality_flag None = ''VALID''"
    by (simp add: quality_flag_def)
  show "map data_quality_flag (df_silver df) = map (\<lambda>r. quality_flag (temperature r)) df"
    by (rule df_silver_flags)
  show "map flagged_observation.truncate (silver_frame df) = filter is_valid (df_silver df)"
    by (rule silver_frame_truncate)
  show "map flagged_observation.truncate (ckpt_silver_frame df) = filter is_valid (df_silver df)"
    by (rule ckpt_silver_frame_truncate)
  show "\<forall>e \<in> set (silver_frame df).
          data_quality_flag e = ''VALID'' \<and> quality_flag (temperature e) = ''VALID''"
    using silver_frame_valid by blast
  show "\<forall>e \<in> set (ckpt_silver_frame df).
          data_quality_flag e = ''VALID'' \<and> quality_flag (temperature e) = ''VALID''"
    using ckpt_silver_frame_valid by blast
  show "\<forall>(k, g) \<in> set (groupby (ckpt_silver_frame df)). \<forall>e \<in> set g.
          data_quality_flag e = ''VALID'' \<and> quality_flag (temperature e) = ''VALID''"
  proof (intro ballI, clarify)
    fix k g e
    assume "(k, g) \<in> set (groupby (ckpt_silver_frame df))" and "e \<in> set g"
    then have "e \<in> set (ckpt_silver_frame df)"
      using groupby_rows by blast
    then show "data_quality_flag e = ''VALID'' \<and> quality_flag (temperature e) = ''VALID''"
      by (rule ckpt_silver_frame_valid)
  qed
qed

lemma batch3_frames:
  "silver_frame batch3 = [enrich (add_quality_flag (fill_missing obs_london))]"
  "ckpt_silver_frame batch3 = [ckpt_enrich (add_quality_flag (fill_missing obs_london))]"
  by (simp_all add: batch3_def silver_frame_def ckpt_silver_frame_def df_valid_def
      df_silver_def is_valid_def add_quality_flag_sel fill_missing_keeps quality_flag_def
      obs_extreme_def obs_london_def)

lemma london_group_key:
  "group_key (ckpt_enrich (add_quality_flag (fill_missing obs_london)))
     = Some (''2643743'', ''London'', ''GB'', (2024, 1, 1), ''TEMPERATE'', ''NORTHERN'')"
  by (simp add: group_key_def row_simps add_quality_flag_def fill_missing_def obs_london_def
      date_of_def noon_def ckpt_get_hemisphere_def ckpt_get_climate_zone_def)

lemma batch3_groups:
  "groupby (ckpt_silver_frame batch3)
     = [((''2643743'', ''London'', ''GB'', (2024, 1, 1), ''TEMPERATE'', ''NORTHERN''),
         [ckpt_enrich (add_quality_flag (fill_missing obs_london))])]"
  by (simp add: batch3_frames groupby_def List.map_filter_def london_group_key)

theorem quality_gate_excludes_extremes_witness:
  "quality_flag (Some (- 60)) = ''EXTREME_TEMPERATURE''
   \<and> enrich (add_quality_flag (fill_missing obs_london)) \<in> set (silver_frame batch3)
   \<and> data_quality_flag (enrich (add_quality_flag (fill_missing obs_london))) = ''VALID''
   \<and> ckpt_enrich (add_quality_flag (fill_missing obs_london)) \<in> set (ckpt_silver_frame batch3)
   \<and> data_quality_flag (ckpt_enrich (add_quality_flag (fill_missing obs_london))) = ''VALID''
   \<and> length (groupby (ckpt_silver_frame batch3)) = 1
   \<and> length (silver_frame batch3) = 1 \<and> length batch3 = 3"
proof -
  note gate = quality_gate_excludes_extremes [where T = "Some (- 60)" and df = batch3]
  have extreme: "quality_flag (Some (- 60)) = ''EXTREME_TEMPERATURE''"
    using gate by simp
  have in_silver:
    "enrich (add_quality_flag (fill_missing obs_london)) \<in> set (silver_frame batch3)"
    by (simp add: batch3_frames)
  have in_ckpt:
    "ckpt_enrich (add_quality_flag (fill_missing obs_london)) \<in> set (ckpt_silver_frame batch3)"
    by (simp add: batch3_frames)
  have "\<forall>e \<in> set (silver_frame batch3).
          data_quality_flag e = ''VALID'' \<and> quality_flag (temperature e) = ''VALID''"
    using gate by blast
  with in_silver
  have valid: "data_quality_flag (enrich (add_quality_flag (fill_missing obs_london))) = ''VALID''"
    by blast
  have "\<forall>e \<in> set (ckpt_silver_frame batch3).
          data_quality_flag e = ''VALID'' \<and> quality_flag (temperature e) = ''VALID''"
    using gate by blast
  with in_ckpt
  have ckpt_valid:
    "data_quality_flag (ckpt_enrich (add_quality_flag (fill_missing obs_london))) = ''VALID''"
    by blast
  have groups: "length (groupby (ckpt_silver_frame batch3)) = 1"
    by (simp add: batch3_groups)
  have rows: "length (silver_frame batch3) = 1"
    by (simp add: batch3_frames)
  have batch: "length batch3 = 3"
    by (simp add: batch3_def)
  show ?thesis
    using extreme in_silver valid in_ckpt ckpt_valid groups rows batch by blast
qed

subsection \<open>Comfort index\<close>

lemma comfort_index_None_iff:
  "(calculate_comfort_index T H W = None) = (T = None \<or> H = None)"
  by (simp add: calculate_comfort_index_def Let_def split: option.splits)

lemma clamp_nonpos: "x \<le> 0 \<Longrightarrow> max 0 (min 100 x) = (0::real)"
  by simp

lemma comfort_index_eq_double:
  "calculate_comfort_index (Some t) (Some h) (Some w) = Some (comfort_double t h w)"
proof -
  define a where "a = fsub 100 (fmul \<bar>fsub t 21\<bar> 5)"
  define hp where "hp = fmul \<bar>fsub h 50\<bar> (to_double (3 / 10))"
  define wp where "wp = fmul \<bar>fsub w 5\<bar> 2"
  have hp0: "0 \<le> hp"
    by (simp add: hp_def fmul_nonneg to_double_nonneg)
  have wp0: "0 \<le> wp"
    by (simp add: wp_def fmul_nonneg)
  have code: "calculate_comfort_index (Some t) (Some h) (Some w)
                = Some (max 0 (min 100 (fsub (fsub (max 0 a) hp) wp)))"
    by (simp add: calculate_comfort_index_def Let_def a_def hp_def wp_def)
  have spec: "comfort_double t h w = max 0 (min 100 (fsub (fsub a hp) wp))"
    by (simp add: comfort_double_def clamp_def a_def hp_def wp_def fmul_commute)
  show ?thesis
  proof (cases "0 \<le> a")
    case True
    then show ?thesis
      by (simp add: code spec max_def)
  next
    case False
    then have neg: "a \<le> 0" and zero: "max 0 a = 0"
      by simp_all
    have "fsub (fsub 0 hp) wp \<le> 0"
      using hp0 wp0 by (intro fsub_nonpos) simp_all
    then have l: "max 0 (min 100 (fsub (fsub 0 hp) wp)) = 0"
      by (rule clamp_nonpos)
    have "fsub (fsub a hp) wp \<le> 0"
      using neg hp0 wp0 by (intro fsub_nonpos) simp_all
    then have r: "max 0 (min 100 (fsub (fsub a hp) wp)) = 0"
      by (rule clamp_nonpos)
    show ?thesis
      by (simp only: code spec zero l r)
  qed
qed

lemma comfort_double_range: "0 \<le> comfort_double t h w \<and> comfort_double t h w \<le> 100"
  by (simp add: comfort_double_def clamp_def)

lemma comfort_index_of_row:
  "comfort_index (enrich (add_quality_flag (fill_missing r)))
     = calculate_comfort_index (temperature r) (humidity r) (fillna0 (wind_speed r))"
  "comfort_index (ckpt_enrich (add_quality_flag (fill_missing r)))
     = calculate_comfort_index (temperature r) (humidity r) (fillna0 (wind_speed r))"
  by (simp_all add: row_simps add_quality_flag_def fill_missing_def)

lemma comfort_index_of_raw:
  "calculate_comfort_index (temperature r) (humidity r) (fillna0 (wind_speed r))
     = (case (temperature r, humidity r) of
          (Some t, Some h) \<Rightarrow>
            Some (comfort_double t h (case wind_speed r of None \<Rightarrow> 0 | Some w \<Rightarrow> w))
        | _ \<Rightarrow> None)"
proof (cases "temperature r")
  case None
  then show ?thesis by (simp add: calculate_comfort_index_def)
next
  case (Some t)
  note t = this
  show ?thesis
  proof (cases "humidity r")
    case None
    with t show ?thesis by (simp add: calculate_comfort_index_def)
  next
    case (Some h)
    with t show ?thesis
      by (simp add: fillna0_def comfort_index_eq_double split: option.splits)
  qed
qed

lemma silver_frame_rows:
  "silver_frame df
     = map (\<lambda>r. enrich (add_quality_flag (fill_missing r)))
         (filter (\<lambda>r. quality_flag (temperature r) = ''VALID'') df)"
  "ckpt_silver_frame df
     = map (\<lambda>r. ckpt_enrich (add_quality_flag (fill_missing r)))
         (filter (\<lambda>r. quality_flag (temperature r) = ''VALID'') df)"
  by (simp_all add: silver_frame_def ckpt_silver_frame_def df_valid_def df_silver_def
      filter_map comp_def is_valid_def add_quality_flag_sel fill_missing_keeps)

lemma comfort_index_rounding:
  "calculate_comfort_index (Some 15) (Some 42) (Some 3)
     = Some (2237726064849715 / 35184372088832)"
  "comfort_spec 15 42 (Some 3) = 63.6"
  by (simp_all add: calculate_comfort_index_def comfort_spec_def clamp_def Let_def)
    (simp_all add: double_simps)

text \<open>
  C1, amended. For every observation the comfort index is null exactly when temperature
  or humidity is absent. When both are present it is
  \<open>clamp((100 - 5|t - 21|) - 0.3|h - 50| - 2|w - 5|, 0, 100)\<close> with every operation
  in double precision, where \<open>w\<close> is the wind speed, or 0 when the wind speed is absent:
  both variants fill an absent wind speed with 0 before the index is computed, so the
  wind term is then 10. Clamping the temperature term at 0 first changes nothing, and
  the value lies in [0, 100]. The rows of the written frames are the enrichments of the
  VALID observations.
\<close>

theorem comfort_index_of_observation:
  "(calculate_comfort_index T H W = None) = (T = None \<or> H = None)
   \<and> calculate_comfort_index (Some t) (Some h) (Some w) = Some (comfort_double t h w)
   \<and> 0 \<le> comfort_double t h w \<and> comfort_double t h w \<le> 100
   \<and> comfort_index (enrich (add_quality_flag (fill_missing r)))
       = (case (temperature r, humidity r) of
            (Some t, Some h) \<Rightarrow>
              Some (comfort_double t h (case wind_speed r of None \<Rightarrow> 0 | Some w \<Rightarrow> w))
          | _ \<Rightarrow> None)
   \<and> comfort_index (ckpt_enrich (add_quality_flag (fill_missing r)))
       = (case (temperature r, humidity r) of
            (Some t, Some h) \<Rightarrow>
              Some (comfort_double t h (case wind_speed r of None \<Rightarrow> 0 | Some w \<Rightarrow> w))
          | _ \<Rightarrow> None)
   \<and> silver_frame df
       = map (\<lambda>r. enrich (add_quality_flag (fill_missing r)))
           (filter (\<lambda>r. quality_flag (temperature r) = ''VALID'') df)
   \<and> ckpt_silver_frame df
       = map (\<lambda>r. ckpt_enrich (add_quality_flag (fill_missing r)))
           (filter (\<lambda>r. quality_flag (temperature r) = ''VALID'') df)"
  by (simp only: comfort_index_None_iff comfort_index_eq_double comfort_double_range
      comfort_index_of_row comfort_index_of_raw silver_frame_rows simp_thms)

lemma obs_no_wind_cells:
  "temperature obs_no_wind = Some 21" "humidity obs_no_wind = Some 50"
  "wind_speed obs_no_wind = None"
  by (simp_all add: obs_no_wind_def obs_london_def)

theorem comfort_index_of_observation_witness:
  "comfort_index (enrich (add_quality_flag (fill_missing obs_no_wind))) = Some 90
   \<and> comfort_index (ckpt_enrich (add_quality_flag (fill_missing obs_no_wind))) = Some 90
   \<and> calculate_comfort_index (Some 21) (Some 50) (Some 5) = Some 100
   \<and> calculate_comfort_index None (Some 50) (Some 5) = None"
proof -
  have calm: "comfort_double 21 50 0 = 90" and ideal: "comfort_double 21 50 5 = 100"
    by (simp_all add: comfort_double_def clamp_def) (simp_all add: double_simps)
  show ?thesis
    using comfort_index_of_observation [where T = None and H = "Some 50" and W = "Some 5"
        and t = 21 and h = 50 and w = 5 and r = obs_no_wind]
    by (simp add: obs_no_wind_cells calm ideal)
qed

text \<open>
  As written the statement fails on an observation without wind speed: at temperature
  21 and humidity 50 the written index is 90 in both variants, where a wind term of 0
  gives 100.
\<close>

theorem comfort_index_absent_wind:
  "wind_speed obs_no_wind = None
   \<and> map comfort_index (silver_frame [obs_no_wind]) = [Some 90]
   \<and> map comfort_index (ckpt_silver_frame [obs_no_wind]) = [Some 90]
   \<and> comfort_spec 21 50 None = 100"
proof -
  have valid: "quality_flag (Some 21) = ''VALID''"
    by (simp add: quality_flag_def)
  have index: "calculate_comfort_index (Some 21) (Some 50) (Some 0) = Some 90"
    by (simp add: calculate_comfort_index_def Let_def) (simp add: double_simps)
  have claimed: "comfort_spec 21 50 None = 100"
    by (simp add: comfort_spec_def clamp_def)
  show ?thesis
    by (simp add: silver_frame_rows valid comfort_index_of_row obs_no_wind_cells fillna0_def
        index claimed)
qed

subsection \<open>Severity score\<close>






lemma double_literals:
  "to_double (1 / 10) = 3602879701896397 / 36028797018963968"
  "to_double (2 / 10) = 3602879701896397 / 18014398509481984"
  "to_double (3 / 10) = 5404319552844595 / 18014398509481984"
  "to_double (4 / 10) = 3602879701896397 / 9007199254740992"
  "to_double (6 / 10) = 5404319552844595 / 9007199254740992"
  by (simp_all add: double_simps)

lemma severity_score_rounding:
  "severity_score (Some (- 8)) (Some 20) (Some 5) (Some 50)
     = Some (7205759403792793 / 18014398509481984)"
  "categorize_severity (Some (7205759403792793 / 18014398509481984)) = ''MODERATE''"
  by (simp_all add: severity_score_def categorize_severity_def) (simp_all add: double_simps)








subsection \<open>Run results\<close>

lemma transform_data_success:
  assumes "df_bronze \<noteq> []" and "df_valid df_bronze \<noteq> []"
    and "write_pandas (silver_frame df_bronze) = Inr (True, nrows)"
  shows "fst (transform_data (Inr df_bronze) write_pandas)
           = [(''status'', Str ''SUCCESS''), (''bronze_rows'', Num (length df_bronze)),
              (''silver_rows'', Num nrows)]"
  using assms by (simp add: transform_data_def)

lemma ckpt_transform_data_success:
  assumes "df_bronze \<noteq> []" and "pd_writer (ckpt_silver_frame df_bronze) = Inr (True, nrows)"
  shows "fst (ckpt_transform_data (Inr df_bronze) pd_writer pd_writer_daily)
           = [(''status'', Str ''SUCCESS''),
              (''records_transformed'', Num (count_valid df_bronze)),
              (''silver_rows_written'', Num nrows)]"
  using assms by (simp add: ckpt_transform_data_def count_valid_def ckpt_silver_frame_def)

text \<open>
  C5, amended. For a batch that is not empty, a successful write makes
  \<^verbatim>\<open>SimpleWeatherTransformation.transform_data\<close> return SUCCESS with two counts: the size
  of the input batch (bronze_rows) and the number of rows the writer reports
  (silver_rows). The checkpoint variant returns SUCCESS with the number of VALID records
  (records_transformed) and the number of rows the writer reports (silver_rows_written).
  Neither dictionary has an entry for the rejected records.
\<close>

theorem success_result_counts:
  "(df_bronze \<noteq> [] \<and> df_valid df_bronze \<noteq> []
      \<and> write_pandas (silver_frame df_bronze) = Inr (True, nrows)
    \<longrightarrow> fst (transform_data (Inr df_bronze) write_pandas)
          = [(''status'', Str ''SUCCESS''), (''bronze_rows'', Num (length df_bronze)),
             (''silver_rows'', Num nrows)])
   \<and> (df_bronze \<noteq> [] \<and> pd_writer (ckpt_silver_frame df_bronze) = Inr (True, nrows')
    \<longrightarrow> fst (ckpt_transform_data (Inr df_bronze) pd_writer pd_writer_daily)
          = [(''status'', Str ''SUCCESS''),
             (''records_transformed'', Num (count_valid df_bronze)),
             (''silver_rows_written'', Num nrows')])"
  using transform_data_success ckpt_transform_data_success by blast

theorem success_result_counts_witness:
  "batch3 \<noteq> [] \<and> df_valid batch3 \<noteq> []
   \<and> write_all (silver_frame batch3) = Inr (True, 1)
   \<and> write_all (ckpt_silver_frame batch3) = Inr (True, 1)
   \<and> fst (transform_data (Inr batch3) write_all)
       = [(''status'', Str ''SUCCESS''), (''bronze_rows'', Num 3), (''silver_rows'', Num 1)]
   \<and> fst (ckpt_transform_data (Inr batch3) write_all write_all)
       = [(''status'', Str ''SUCCESS''), (''records_transformed'', Num 1),
          (''silver_rows_written'', Num 1)]"
proof -
  have valid: "df_valid batch3 \<noteq> []" "count_valid batch3 = 1"
    by (simp_all add: batch3_def count_valid_def df_valid_def df_silver_def is_valid_def
        add_quality_flag_sel fill_missing_keeps quality_flag_def obs_extreme_def obs_london_def)
  have batch: "batch3 \<noteq> []" "length batch3 = 3"
    by (simp_all add: batch3_def)
  have written: "write_all (silver_frame batch3) = Inr (True, 1)"
    "write_all (ckpt_silver_frame batch3) = Inr (True, 1)"
    by (simp_all add: write_all_def batch3_frames)
  show ?thesis
    using success_result_counts [where df_bronze = batch3 and write_pandas = write_all
        and pd_writer = write_all and pd_writer_daily = write_all and nrows = 1 and nrows' = 1]
      valid batch written
    by simp
qed

text \<open>
  As written the statement fails: of three records, two rejected, the result of either
  variant holds no entry with the value 2.
\<close>

theorem rejected_count_not_reported:
  "fst (transform_data (Inr batch3) write_all)
     = [(''status'', Str ''SUCCESS''), (''bronze_rows'', Num 3), (''silver_rows'', Num 1)]
   \<and> fst (ckpt_transform_data (Inr batch3) write_all write_all)
     = [(''status'', Str ''SUCCESS''), (''records_transformed'', Num 1),
        (''silver_rows_written'', Num 1)]
   \<and> count_rejected batch3 = 2
   \<and> \<not> reports_count (fst (transform_data (Inr batch3) write_all)) (count_rejected batch3)
   \<and> \<not> reports_count (fst (ckpt_transform_data (Inr batch3) write_all write_all))
         (count_rejected batch3)"
proof -
  have valid: "df_valid batch3 \<noteq> []" "length (df_valid batch3) = 1"
    by (simp_all add: batch3_def df_valid_def df_silver_def is_valid_def add_quality_flag_sel
        fill_missing_keeps quality_flag_def obs_extreme_def obs_london_def)
  have batch: "batch3 \<noteq> []" "length batch3 = 3"
    by (simp_all add: batch3_def)
  have rejected: "count_rejected batch3 = 2"
    by (simp add: count_rejected_def count_valid_def valid batch)
  have main: "fst (transform_data (Inr batch3) write_all)
     = [(''status'', Str ''SUCCESS''), (''bronze_rows'', Num 3), (''silver_rows'', Num 1)]"
    by (simp add: transform_data_def write_all_def valid batch batch3_frames)
  have ckpt: "fst (ckpt_transform_data (Inr batch3) write_all write_all)
     = [(''status'', Str ''SUCCESS''), (''records_transformed'', Num 1),
        (''silver_rows_written'', Num 1)]"
    by (simp add: ckpt_transform_data_def write_all_def batch batch3_frames)
  show ?thesis
    by (simp add: main ckpt rejected reports_count_def)
qed

subsection \<open>Empty batches\<close>

lemma daily_aggregation_returns_None: "fst (create_daily_aggregations pd_writer df) = None"
  by (simp add: create_daily_aggregations_def split: sum.splits prod.splits)

text \<open>
  C9, amended. On an empty batch \<^verbatim>\<open>SimpleWeatherTransformation.transform_data\<close> returns
  status WARNING with the message 'No bronze data', and when no record passes the quality
  gate status WARNING with the message 'No valid data'; the checkpoint variant returns
  WARNING with a message on an empty batch. These results hold no count, are never
  FAILED, and nothing is handed to the writer. \<^verbatim>\<open>create_daily_aggregations\<close> returns
  no result at all, on any frame.
\<close>

theorem empty_batch_warning:
  "transform_data (Inr []) write_pandas
     = ([(''status'', Str ''WARNING''), (''message'', Str ''No bronze data'')], None)
   \<and> (df_bronze \<noteq> [] \<and> df_valid df_bronze = []
      \<longrightarrow> transform_data (Inr df_bronze) write_pandas
            = ([(''status'', Str ''WARNING''), (''message'', Str ''No valid data'')], None))
   \<and> ckpt_transform_data (Inr []) pd_writer pd_writer_daily
       = ([(''status'', Str ''WARNING''), (''message'', Str ''No data to transform'')],
          None, None)
   \<and> fst (create_daily_aggregations pd_writer_daily df) = None"
  by (simp add: transform_data_def ckpt_transform_data_def daily_aggregation_returns_None)

theorem empty_batch_warning_witness:
  "[obs_extreme, obs_extreme] \<noteq> [] \<and> df_valid [obs_extreme, obs_extreme] = []
   \<and> status (fst (transform_data (Inr [obs_extreme, obs_extreme]) write_all))
       = Some (Str ''WARNING'')
   \<and> status (fst (transform_data (Inr []) write_all)) = Some (Str ''WARNING'')
   \<and> status (fst (ckpt_transform_data (Inr []) write_all write_all)) = Some (Str ''WARNING'')"
proof -
  have none_valid: "df_valid [obs_extreme, obs_extreme] = []"
    by (simp add: df_valid_def df_silver_def is_valid_def add_quality_flag_sel
        fill_missing_keeps quality_flag_def obs_extreme_def obs_london_def)
  show ?thesis
    using empty_batch_warning [where df_bronze = "[obs_extreme, obs_extreme]"
        and write_pandas = write_all and pd_writer = write_all and pd_writer_daily = write_all]
      none_valid
    by (simp add: status_def)
qed

text \<open>
  As written the statement fails for the aggregation: called on the empty frame it
  returns None, not a result with status WARNING.
\<close>

theorem aggregation_returns_no_result:
  "\<not> reports_warning (fst (create_daily_aggregations write_all []))"
  by (simp add: daily_aggregation_returns_None reports_warning_def)

subsection \<open>Season\<close>

lemma get_season_NaN: "get_season None = ''AUTUMN''"
  by (simp add: get_season_def py_in_def)

lemma get_season_otherwise:
  "m \<notin> set [12, 1, 2] \<Longrightarrow> m \<notin> set [3, 4, 5] \<Longrightarrow> m \<notin> set [6, 7, 8]
     \<Longrightarrow> get_season (Some m) = ''AUTUMN''"
  by (simp add: get_season_def py_in_def)

lemma enrich_without_timestamp:
  assumes "timestamp r = None"
  shows "season (enrich r) = ''AUTUMN'' \<and> date (enrich r) = None \<and> hour (enrich r) = None
         \<and> day_of_week (enrich r) = None \<and> month (enrich r) = None"
  using assms by (simp add: row_simps get_season_NaN)

lemma silver_frame_without_timestamp:
  assumes "e \<in> set (silver_frame df)" and "timestamp e = None"
  shows "data_quality_flag e = ''VALID'' \<and> season e = ''AUTUMN'' \<and> date e = None
         \<and> hour e = None \<and> day_of_week e = None \<and> month e = None"
proof -
  from assms(1) obtain r where e: "e = enrich r"
    by (auto simp add: silver_frame_def)
  with assms(2) have "timestamp r = None"
    by (simp add: enrich_keeps)
  then show ?thesis
    using silver_frame_valid [OF assms(1)] by (simp add: e enrich_without_timestamp)
qed

text \<open>
  C10. \<^verbatim>\<open>get_season\<close> returns AUTUMN for every month outside {12, 1, 2}, {3, 4, 5} and
  {6, 7, 8}, and for the NaN month. A row of the enriched frame (so a VALID one) whose
  timestamp is absent has season AUTUMN and null date, hour, day of week and month.
\<close>

theorem season_falls_back_to_autumn:
  "(m \<notin> set [12, 1, 2] \<and> m \<notin> set [3, 4, 5] \<and> m \<notin> set [6, 7, 8]
      \<longrightarrow> get_season (Some m) = ''AUTUMN'')
   \<and> get_season None = ''AUTUMN''
   \<and> (\<forall>e \<in> set (silver_frame df). timestamp e = None \<longrightarrow>
         data_quality_flag e = ''VALID'' \<and> season e = ''AUTUMN'' \<and> date e = None
         \<and> hour e = None \<and> day_of_week e = None \<and> month e = None)"
  using get_season_otherwise get_season_NaN silver_frame_without_timestamp by blast

theorem season_falls_back_to_autumn_witness:
  "(13::int) \<notin> set [12, 1, 2] \<and> (13::int) \<notin> set [3, 4, 5] \<and> (13::int) \<notin> set [6, 7, 8]
   \<and> get_season (Some 13) = ''AUTUMN''
   \<and> enrich (add_quality_flag (fill_missing obs_no_timestamp))
       \<in> set (silver_frame [obs_no_timestamp])
   \<and> timestamp (enrich (add_quality_flag (fill_missing obs_no_timestamp))) = None
   \<and> season (enrich (add_quality_flag (fill_missing obs_no_timestamp))) = ''AUTUMN''
   \<and> date (enrich (add_quality_flag (fill_missing obs_no_timestamp))) = None"
proof -
  note autumn = season_falls_back_to_autumn [where m = 13 and df = "[obs_no_timestamp]"]
  have mem: "enrich (add_quality_flag (fill_missing obs_no_timestamp))
               \<in> set (silver_frame [obs_no_timestamp])"
    by (simp add: silver_frame_def df_valid_def df_silver_def is_valid_def add_quality_flag_sel
        fill_missing_keeps quality_flag_def obs_no_timestamp_def obs_london_def)
  have nat: "timestamp (enrich (add_quality_flag (fill_missing obs_no_timestamp))) = None"
    by (simp add: enrich_keeps add_quality_flag_sel fill_missing_keeps obs_no_timestamp_def)
  have "\<forall>e \<in> set (silver_frame [obs_no_timestamp]). timestamp e = None \<longrightarrow>
         data_quality_flag e = ''VALID'' \<and> season e = ''AUTUMN'' \<and> date e = None
         \<and> hour e = None \<and> day_of_week e = None \<and> month e = None"
    using autumn by blast
  with mem nat
  have row: "season (enrich (add_quality_flag (fill_missing obs_no_timestamp))) = ''AUTUMN''
             \<and> date (enrich (add_quality_flag (fill_missing obs_no_timestamp))) = None"
    by blast
  have thirteen: "get_season (Some 13) = ''AUTUMN''"
    using autumn by simp
  show ?thesis
    using mem nat row thirteen by simp
qed

subsection \<open>Latitude and temperature classifiers\<close>

lemma get_hemisphere_cases:
  "get_hemisphere None = ''UNKNOWN''"
  "get_hemisphere (Some l) =
     (if l > 0 then ''NORTHERN'' else if l < 0 then ''SOUTHERN'' else ''EQUATORIAL'')"
  by (simp_all add: get_hemisphere_def isna_def)

lemma get_climate_zone_cases:
  "get_climate_zone None = ''UNKNOWN''"
  "get_climate_zone (Some l) =
     (if \<bar>l\<bar> \<le> 23.5 then ''TROPICAL'' else if \<bar>l\<bar> \<le> 35 then ''SUBTROPICAL''
      else if \<bar>l\<bar> \<le> 55 then ''TEMPERATE'' else ''POLAR'')"
  by (simp_all add: get_climate_zone_def isna_def Let_def)

lemma ckpt_latitude_present:
  "ckpt_get_hemisphere (Some l) = get_hemisphere (Some l)"
  "ckpt_get_climate_zone (Some l) = get_climate_zone (Some l)"
  by (simp_all add: get_climate_zone_def get_hemisphere_def ckpt_get_climate_zone_def
      ckpt_get_hemisphere_def isna_def Let_def)

text \<open>
  C7. The claim asks for UNKNOWN when the latitude is absent.
  \<^verbatim>\<open>SimpleWeatherTransformation\<close> does that, and \<open>get_hemisphere_cases\<close> and
  \<open>get_climate_zone_cases\<close> give its bands for a present latitude, which the checkpoint
  variant shares. On a NaN latitude the checkpoint variant, which lacks the
  \<^verbatim>\<open>pd.isna\<close> test, answers EQUATORIAL and POLAR.
\<close>

theorem ckpt_latitude_absent:
  "ckpt_get_hemisphere None = ''EQUATORIAL'' \<and> ckpt_get_climate_zone None = ''POLAR''
   \<and> get_hemisphere None = ''UNKNOWN'' \<and> get_climate_zone None = ''UNKNOWN''"
  by (simp add: ckpt_get_climate_zone_def ckpt_get_hemisphere_def get_hemisphere_cases
      get_climate_zone_cases Let_def)

lemma categorize_temperature_cases:
  "categorize_temperature None = ''UNKNOWN''"
  "categorize_temperature (Some t) =
     (if t < 0 then ''FREEZING'' else if t < 10 then ''COLD'' else if t < 20 then ''COOL''
      else if t < 30 then ''WARM'' else ''HOT'')"
  by (simp_all add: categorize_temperature_def isna_def)

lemma ckpt_temperature_present:
  "ckpt_categorize_temperature (Some t) = categorize_temperature (Some t)"
  by (simp add: categorize_temperature_def ckpt_categorize_temperature_def isna_def)

text \<open>
  C8. The claim asks for UNKNOWN when the temperature is absent.
  \<^verbatim>\<open>SimpleWeatherTransformation\<close> does that, and \<open>categorize_temperature_cases\<close> gives
  its five bins for a present temperature, which the checkpoint variant shares. On a NaN
  temperature the checkpoint variant, which lacks the \<^verbatim>\<open>pd.isna\<close> test, answers HOT.
\<close>

theorem ckpt_temperature_absent:
  "ckpt_categorize_temperature None = ''HOT'' \<and> categorize_temperature None = ''UNKNOWN''"
  by (simp add: ckpt_categorize_temperature_def categorize_temperature_cases)

subsection \<open>Daily aggregation\<close>

lemma agg_spec_value:
  "agg_spec =
     [(''TEMPERATURE'', [Agg_count, Agg_mean, Agg_min, Agg_max, Agg_std]),
      (''HUMIDITY'', [Agg_mean, Agg_min, Agg_max]),
      (''WIND_SPEED'', [Agg_mean, Agg_max]),
      (''PRESSURE'', [Agg_mean]),
      (''COMFORT_INDEX'', [Agg_mean]),
      (''WEATHER_MAIN'', [Agg_nunique])]"
  by (simp add: agg_spec_def dict_literal_def)

lemma resolve_agg_spec: "\<exists>gs. resolve (agg_labels agg_spec) = Inr gs \<and> length gs = 13"
  by (simp add: agg_spec_value agg_labels_def frame_columns_def)

lemma groupby_agg_columns: "\<exists>rows. groupby_agg df = Inr (19, rows)"
  using resolve_agg_spec by (auto simp add: groupby_agg_def)

lemma daily_agg_fails: "daily_agg df = Inl (ValueError_length_mismatch 19 20)"
  using groupby_agg_columns [of df]
  by (auto simp add: daily_agg_def set_columns_def daily_columns_def)

lemma create_daily_aggregations_fails:
  "create_daily_aggregations pd_writer df
     = (None, Aggregation_failed (ValueError_length_mismatch 19 20), None)"
  by (simp add: create_daily_aggregations_def daily_agg_fails)

lemma count_skips_null:
  "aggregate Agg_count (map (\<lambda>r. Number (temperature r)) g)
     = Count (length (filter (\<lambda>r. temperature r \<noteq> None) g))"
  by (induction g) simp_all

text \<open>
  The grouped frame before its columns are named: column 6 holds the TEMPERATURE count
  meant to become HOURLY_READINGS. Over the groups these counts add up to the number of
  rows that have every grouping key and a temperature, not to the size of the frame.
\<close>

lemma length_filter_disjoint:
  assumes "\<And>x. x \<in> set xs \<Longrightarrow> \<not> (A x \<and> B x)"
  shows "length (filter A xs) + length (filter B xs) = length (filter (\<lambda>x. A x \<or> B x) xs)"
  using assms by (induction xs) auto

lemma sum_group_sizes:
  assumes "distinct ks"
  shows "sum_list (map (\<lambda>k. length (filter (\<lambda>r. f r = Some k \<and> P r) df)) ks)
           = length (filter (\<lambda>r. f r \<in> Some ` set ks \<and> P r) df)"
  using assms
proof (induction ks)
  case Nil
  then show ?case by simp
next
  case (Cons k ks)
  have "length (filter (\<lambda>r. f r = Some k \<and> P r) df)
          + length (filter (\<lambda>r. f r \<in> Some ` set ks \<and> P r) df)
        = length (filter (\<lambda>r. (f r = Some k \<and> P r) \<or> (f r \<in> Some ` set ks \<and> P r)) df)"
    using Cons.prems by (intro length_filter_disjoint) auto
  also have "\<dots> = length (filter (\<lambda>r. f r \<in> Some ` set (k # ks) \<and> P r) df)"
    by (rule arg_cong [where f = length], rule filter_cong) auto
  finally show ?case
    using Cons by simp
qed

lemma set_map_filter: "set (List.map_filter f xs) = {k. \<exists>x \<in> set xs. f x = Some k}"
  by (induction xs) (auto split: option.splits)

lemma grouped_temperature_counts:
  "sum_list (map (\<lambda>(k, g). length (filter (\<lambda>r. temperature r \<noteq> None) g)) (groupby df))
     = length (filter (\<lambda>r. group_key r \<noteq> None \<and> temperature r \<noteq> None) df)"
proof -
  let ?ks = "sort (remdups (List.map_filter group_key df))"
  have d: "distinct ?ks" by simp
  have "sum_list (map (\<lambda>(k, g). length (filter (\<lambda>r. temperature r \<noteq> None) g)) (groupby df))
      = sum_list (map (\<lambda>k. length (filter (\<lambda>r. group_key r = Some k \<and> temperature r \<noteq> None) df)) ?ks)"
    by (simp add: groupby_def comp_def conj_commute)
  also have "\<dots> = length (filter (\<lambda>r. group_key r \<in> Some ` set ?ks \<and> temperature r \<noteq> None) df)"
    by (rule sum_group_sizes [OF d])
  also have "\<dots> = length (filter (\<lambda>r. group_key r \<noteq> None \<and> temperature r \<noteq> None) df)"
    by (rule arg_cong [where f = length], rule filter_cong) (auto simp add: set_map_filter)
  finally show ?thesis .
qed

lemma resolve_first: "\<exists>gs. resolve (agg_labels agg_spec) = Inr ((\<lambda>r. Number (temperature r), Agg_count) # gs) \<and> length gs = 12"
  by (simp add: agg_spec_value agg_labels_def frame_columns_def)

lemma count_column:
  assumes "groupby_agg df = Inr (n, rows)"
  shows "map (\<lambda>row. row ! 6) rows
           = map (\<lambda>(k, g). Count (length (filter (\<lambda>r. temperature r \<noteq> None) g))) (groupby df)"
proof -
  obtain gs where gs: "resolve (agg_labels agg_spec) = Inr ((\<lambda>r. Number (temperature r), Agg_count) # gs)"
    using resolve_first by blast
  have six: "length (key_values k) = 6" for k
    by (cases k) (simp add: key_values_def)
  from assms gs have "rows = map (\<lambda>(k, g). key_values k @
      map (\<lambda>(get, f). aggregate f (map get g)) ((\<lambda>r. Number (temperature r), Agg_count) # gs)) (groupby df)"
    by (simp add: groupby_agg_def)
  then show ?thesis
    by (simp add: comp_def case_prod_unfold nth_append six count_skips_null del: aggregate.simps)
qed


lemma grouped_readings_total:
  assumes "groupby_agg df = Inr (n, rows)"
  shows "sum_list (map (\<lambda>row. case row ! 6 of Count c \<Rightarrow> c | _ \<Rightarrow> 0) rows)
           = length (filter (\<lambda>r. group_key r \<noteq> None \<and> temperature r \<noteq> None) df)"
proof -
  have "map (\<lambda>row. case row ! 6 of Count c \<Rightarrow> c | _ \<Rightarrow> 0) rows
          = map (\<lambda>v. case v of Count c \<Rightarrow> c | _ \<Rightarrow> 0) (map (\<lambda>row. row ! 6) rows)"
    by simp
  also have "\<dots> = map (\<lambda>(k, g). length (filter (\<lambda>r. temperature r \<noteq> None) g)) (groupby df)"
    by (simp add: count_column [OF assms] case_prod_unfold)
  finally have "sum_list (map (\<lambda>row. case row ! 6 of Count c \<Rightarrow> c | _ \<Rightarrow> 0) rows)
      = sum_list (map (\<lambda>(k, g). length (filter (\<lambda>r. temperature r \<noteq> None) g)) (groupby df))"
    by (rule arg_cong)
  then show ?thesis
    using grouped_temperature_counts [of df] by (rule trans)
qed

text \<open>
  C4. The claim asks DOMINANT_WEATHER to be the most frequent condition of the group and
  WEATHER_CHANGES_COUNT the number of distinct conditions. The dictionary given to
  \<^verbatim>\<open>.agg\<close> has the key 'WEATHER_MAIN' twice, so 'nunique' replaces the mode lambda; the
  grouped frame has 19 columns, naming them with 20 names raises ValueError, and the
  function catches it: for a frame of one London record it logs the failure and hands
  no DailySummary row to the writer.
\<close>

theorem dominant_weather_never_computed:
  "map_of agg_spec ''WEATHER_MAIN'' = Some [Agg_nunique]
   \<and> length (ckpt_silver_frame batch3) = 1
   \<and> create_daily_aggregations write_all (ckpt_silver_frame batch3)
       = (None, Aggregation_failed (ValueError_length_mismatch 19 20), None)"
  by (simp add: agg_spec_value create_daily_aggregations_fails batch3_frames)

text \<open>
  C6. The claim asks the HOURLY_READINGS of the produced DailySummary rows to add up to
  the size of the batch. For a frame of two London records the aggregation produces no
  row, for the reason given under C4, so the readings add up to 0.
\<close>

theorem no_summary_for_nonempty_batch:
  "length (ckpt_silver_frame [obs_london, obs_london]) = 2
   \<and> daily_summaries
       (create_daily_aggregations write_all (ckpt_silver_frame [obs_london, obs_london])) = []
   \<and> sum_list (map hourly_readings (daily_summaries
       (create_daily_aggregations write_all (ckpt_silver_frame [obs_london, obs_london])))) = 0"
  by (simp add: create_daily_aggregations_fails daily_summaries_def ckpt_silver_frame_def
      df_valid_def df_silver_def is_valid_def add_quality_flag_sel fill_missing_keeps
      quality_flag_def obs_london_def)

end
